theory Spec2Isabelle
  imports Complex_Main "HOL-Library.AList" "HOL-Library.Sublist"
begin

section \<open>Execution Roadmap: health status utilities and the item fetcher\<close>

text \<open>
  The development follows the TypeScript sources: the type declarations of
  \<^verbatim>\<open>types/ExecutionItem\<close>, the composable \<^verbatim>\<open>useHealthStatus\<close>, the badge
  formatting functions \<^verbatim>\<open>getStatusLabel\<close>, \<^verbatim>\<open>getStatusColor\<close>,
  \<^verbatim>\<open>getStatusClassName\<close>, and the composable \<^verbatim>\<open>useExecutionItems\<close>.
  TypeScript types are erased when the program runs, so the functions that receive data
  from outside (the parsed response body) are modelled on JavaScript values, and the
  typed view is embedded into them.
\<close>

subsection \<open>Types: HealthStatus and ExecutionItem\<close>

text \<open>
  \<^verbatim>\<open>type HealthStatus = 'on-track' | 'at-risk' | 'off-track'\<close>: a union of three string
  literals. The datatype is the typed view, \<open>literal\<close> the string each value is at run time.
\<close>

datatype HealthStatus = OnTrack | AtRisk | OffTrack

fun literal :: "HealthStatus \<Rightarrow> string" where
  "literal OnTrack = ''on-track''"
| "literal AtRisk = ''at-risk''"
| "literal OffTrack = ''off-track''"

record ExecutionItem =
  moduleName :: string
  owner :: string
  pm :: string
  healthStatus :: HealthStatus
  teamWorking :: string
  okrHierarchy :: string

subsection \<open>useHealthStatus: the configuration table and the validator\<close>

datatype Severity = Success | Warning | Error

record HealthStatusConfig =
  label :: string
  color :: string
  backgroundColor :: string
  severity :: Severity

text \<open>\<^verbatim>\<open>HEALTH_STATUS_CONFIG\<close>: an object literal with three keys, in the source's order.\<close>

definition HEALTH_STATUS_CONFIG :: "(string \<times> HealthStatusConfig) list" where
  "HEALTH_STATUS_CONFIG =
     [(''on-track'',
         \<lparr>label = ''On Track'', color = ''#0ed183'', backgroundColor = ''#eefbf2'',
          severity = Success\<rparr>),
      (''at-risk'',
         \<lparr>label = ''At Risk'', color = ''#ff514e'', backgroundColor = ''#ffefed'',
          severity = Error\<rparr>),
      (''off-track'',
         \<lparr>label = ''Off Track'', color = ''#ffab26'', backgroundColor = ''#fff7ed'',
          severity = Warning\<rparr>)]"

text \<open>
  \<^verbatim>\<open>getStatusConfig(status) = HEALTH_STATUS_CONFIG[status]\<close>: a keyed read of the table;
  \<open>None\<close> stands for JavaScript's \<^verbatim>\<open>undefined\<close>, what a read of a missing key gives.
\<close>

definition getStatusConfig :: "HealthStatus \<Rightarrow> HealthStatusConfig option" where
  "getStatusConfig status = map_of HEALTH_STATUS_CONFIG (literal status)"

text \<open>\<^verbatim>\<open>isValidStatus(value) = ['on-track', 'at-risk', 'off-track'].includes(value)\<close>.\<close>

definition isValidStatus :: "string \<Rightarrow> bool" where
  "isValidStatus v = (v \<in> set [''on-track'', ''at-risk'', ''off-track''])"

definition getAllStatuses :: "string list" where
  "getAllStatuses = [''on-track'', ''at-risk'', ''off-track'']"

subsection \<open>Badge formatting: getStatusLabel, getStatusColor, getStatusClassName\<close>

text \<open>
  The three functions take \<^verbatim>\<open>HealthStatus | undefined | null\<close>. At run time the argument
  is \<^verbatim>\<open>undefined\<close>, \<^verbatim>\<open>null\<close> or a string; \<^verbatim>\<open>!status\<close> holds for the first two and for
  the empty string.
\<close>

datatype status_arg = Undefined | Null | Status string

fun falsy_status :: "status_arg \<Rightarrow> bool" where
  "falsy_status Undefined = True"
| "falsy_status Null = True"
| "falsy_status (Status s) = (s = [])"

fun getStatusLabel :: "status_arg \<Rightarrow> string" where
  "getStatusLabel status =
     (if falsy_status status then ''Unknown''
      else if status = Status ''on-track'' then ''On track''
      else if status = Status ''at-risk'' then ''At Risks''
      else if status = Status ''off-track'' then ''Off Track''
      else ''Unknown'')"

text \<open>The field \<^verbatim>\<open>text\<close> of \<^verbatim>\<open>StatusColors\<close> is named \<open>text_color\<close> here.\<close>

record StatusColors =
  text_color :: string
  background :: string

fun getStatusColor :: "status_arg \<Rightarrow> StatusColors" where
  "getStatusColor status =
     (if falsy_status status then \<lparr>text_color = ''#656b75'', background = ''#f3f3f3''\<rparr>
      else if status = Status ''on-track''
        then \<lparr>text_color = ''#0ed183'', background = ''#eefbf2''\<rparr>
      else if status = Status ''at-risk''
        then \<lparr>text_color = ''#ff514e'', background = ''#ffefed''\<rparr>
      else if status = Status ''off-track''
        then \<lparr>text_color = ''#ffab26'', background = ''#fff7ed''\<rparr>
      else \<lparr>text_color = ''#656b75'', background = ''#f3f3f3''\<rparr>)"

fun getStatusClassName :: "status_arg \<Rightarrow> string" where
  "getStatusClassName Undefined = ''health-status-unknown''"
| "getStatusClassName Null = ''health-status-unknown''"
| "getStatusClassName (Status s) =
     (if s = [] then ''health-status-unknown'' else ''health-status-'' @ s)"

text \<open>The typed argument: a \<^verbatim>\<open>HealthStatus\<close> value passed to the badge functions.\<close>

definition of_status :: "HealthStatus \<Rightarrow> status_arg" where
  "of_status s = Status (literal s)"

subsection \<open>JavaScript values\<close>

text \<open>
  What \<^verbatim>\<open>response.json()\<close> can resolve to, and \<^verbatim>\<open>undefined\<close>, which a read of a missing
  property gives. A number is kept as the rational it denotes (the code only tests it for
  being zero); an object is the list of its own enumerable properties in enumeration order.
\<close>

datatype jsval =
    JUndefined
  | JNull
  | JBool bool
  | JNum rat
  | JStr string
  | JArr "jsval list"
  | JObj "(string \<times> jsval) list"

text \<open>
  What a \<^verbatim>\<open>catch\<close> can receive: an \<^verbatim>\<open>Error\<close> created with a message, the
  \<^verbatim>\<open>TypeError\<close> the engine raises when a property of \<^verbatim>\<open>null\<close> or \<^verbatim>\<open>undefined\<close> is
  read (its message text is the engine's), or a value that is not an \<^verbatim>\<open>Error\<close>.
\<close>

datatype thrown =
    ErrorObject string
  | TypeErrorRead jsval string
  | NonError

text \<open>\<^verbatim>\<open>!v\<close> is \<open>\<not> truthy v\<close>.\<close>

fun truthy :: "jsval \<Rightarrow> bool" where
  "truthy JUndefined = False"
| "truthy JNull = False"
| "truthy (JBool b) = b"
| "truthy (JNum q) = (q \<noteq> 0)"
| "truthy (JStr s) = (s \<noteq> [])"
| "truthy (JArr xs) = True"
| "truthy (JObj kvs) = True"

fun isArray :: "jsval \<Rightarrow> bool" where
  "isArray (JArr xs) = True"
| "isArray v = False"

text \<open>
  The property read \<^verbatim>\<open>v.p\<close>, for the two names the code reads (\<^verbatim>\<open>items\<close> and
  \<^verbatim>\<open>healthStatus\<close>, which no built-in prototype defines): it throws on \<^verbatim>\<open>null\<close> and
  \<^verbatim>\<open>undefined\<close>, looks the key up in an object, and is \<^verbatim>\<open>undefined\<close> on anything else.
\<close>

fun get_prop :: "jsval \<Rightarrow> string \<Rightarrow> thrown + jsval" where
  "get_prop JUndefined p = Inl (TypeErrorRead JUndefined p)"
| "get_prop JNull p = Inl (TypeErrorRead JNull p)"
| "get_prop (JObj kvs) p = Inr (case map_of kvs p of Some v \<Rightarrow> v | None \<Rightarrow> JUndefined)"
| "get_prop v p = Inr JUndefined"

text \<open>Decimal digits of a number, as a template literal prints an integer.\<close>

definition digit :: "nat \<Rightarrow> char" where
  "digit d = char_of (48 + d)"

function decimal :: "nat \<Rightarrow> string" where
  "decimal n = (if n < 10 then [digit n] else decimal (n div 10) @ [digit (n mod 10)])"
  by pat_completeness auto
termination
  by (relation "measure id") auto

declare decimal.simps [simp del]

text \<open>
  The own enumerable properties that the spread \<^verbatim>\<open>{...v}\<close> copies: those of an object,
  the indexed elements of an array or of a string, nothing for the other values.
\<close>

fun own_enumerable :: "jsval \<Rightarrow> (string \<times> jsval) list" where
  "own_enumerable (JObj kvs) = kvs"
| "own_enumerable (JArr xs) = zip (map decimal [0..<length xs]) xs"
| "own_enumerable (JStr s) = zip (map decimal [0..<length s]) (map (\<lambda>c. JStr [c]) s)"
| "own_enumerable v = []"

text \<open>A typed \<^verbatim>\<open>ExecutionItem\<close> as the object it is at run time.\<close>

definition js_of_item :: "ExecutionItem \<Rightarrow> jsval" where
  "js_of_item item =
     JObj [(''moduleName'', JStr (moduleName item)),
           (''owner'', JStr (owner item)),
           (''pm'', JStr (pm item)),
           (''healthStatus'', JStr (literal (healthStatus item))),
           (''teamWorking'', JStr (teamWorking item)),
           (''okrHierarchy'', JStr (okrHierarchy item))]"

text \<open>\<^verbatim>\<open>classifyStatus(item) = item.healthStatus\<close>.\<close>

definition classifyStatus :: "jsval \<Rightarrow> thrown + jsval" where
  "classifyStatus item = get_prop item ''healthStatus''"

subsection \<open>useExecutionItems: configuration\<close>

text \<open>
  An environment variable is a string or unset (\<open>None\<close>). \<^verbatim>\<open>x || d\<close> is \<open>d\<close> when
  \<open>x\<close> is unset or the empty string, and \<open>x\<close> otherwise.
\<close>

fun or_default :: "string option \<Rightarrow> string \<Rightarrow> string" where
  "or_default None d = d"
| "or_default (Some x) d = (if x = [] then d else x)"

record ApiConfig =
  baseUrl :: string
  endpoint :: string
  fullUrl :: string

definition getApiConfig :: "string option \<Rightarrow> string option \<Rightarrow> ApiConfig" where
  "getApiConfig VITE_API_BASE_URL VITE_API_EXECUTION_ITEMS_ENDPOINT =
     (let baseUrl = or_default VITE_API_BASE_URL [];
          endpoint = or_default VITE_API_EXECUTION_ITEMS_ENDPOINT ''/api/execution-items''
      in \<lparr>baseUrl = baseUrl, endpoint = endpoint, fullUrl = baseUrl @ endpoint\<rparr>)"

subsection \<open>useExecutionItems: the platform\<close>

text \<open>
  The request passed to \<^verbatim>\<open>fetch\<close>, and the response it resolves to. \<^verbatim>\<open>response.ok\<close> is
  the platform's getter: true when the status is in the range 200 to 299.
  \<^verbatim>\<open>response.json()\<close> resolves to the parsed body or rejects. The field \<^verbatim>\<open>method\<close> of
  the request is named \<open>http_method\<close> here.
\<close>

record request =
  url :: string
  http_method :: string
  headers :: "(string \<times> string) list"

record response =
  status :: nat
  statusText :: string
  json :: "thrown + jsval"

definition ok :: "response \<Rightarrow> bool" where
  "ok r = (200 \<le> status r \<and> status r \<le> 299)"

text \<open>
  Everything one run of \<^verbatim>\<open>fetchItems\<close> reads from outside: the two environment variables,
  what \<^verbatim>\<open>fetch\<close> settles to for a request (\<open>Inl\<close>: it rejects), and the message text
  the engine gives the \<^verbatim>\<open>TypeError\<close> of a property read on \<^verbatim>\<open>null\<close> or \<^verbatim>\<open>undefined\<close>.
\<close>

record run_env =
  VITE_API_BASE_URL :: "string option"
  VITE_API_EXECUTION_ITEMS_ENDPOINT :: "string option"
  fetch :: "request \<Rightarrow> thrown + response"
  type_error_text :: "jsval \<Rightarrow> string \<Rightarrow> string"

subsection \<open>useExecutionItems: state and fetchItems\<close>

record fetcher_state =
  items :: "jsval list"
  loading :: bool
  error :: "string option"

text \<open>The three refs as \<^verbatim>\<open>useExecutionItems\<close> creates them.\<close>

definition initial_state :: fetcher_state where
  "initial_state = \<lparr>items = [], loading = False, error = None\<rparr>"

text \<open>The places of \<^verbatim>\<open>fetchItems\<close> where the \<^verbatim>\<open>try\<close> block can be left by a throw.\<close>

datatype throw_site =
    ConfigurationCheck
  | FetchCall
  | HttpStatusCheck
  | JsonParse
  | ItemsRead
  | ResponseValidation
  | Normalization

text \<open>
  The callback of \<^verbatim>\<open>data.items.map\<close>:
  \<^verbatim>\<open>item => ({...item, healthStatus: classifyStatus(item)})\<close>. The key
  \<^verbatim>\<open>healthStatus\<close> keeps its place when the item has it and is appended otherwise.
\<close>

definition normalize :: "jsval \<Rightarrow> thrown + jsval" where
  "normalize item =
     (case classifyStatus item of
        Inl e \<Rightarrow> Inl e
      | Inr hs \<Rightarrow> Inr (JObj (AList.update ''healthStatus'' hs (own_enumerable item))))"

text \<open>\<^verbatim>\<open>Array.prototype.map\<close> with a callback that can throw: the first throw ends it.\<close>

fun map_throwing :: "('a \<Rightarrow> thrown + 'b) \<Rightarrow> 'a list \<Rightarrow> thrown + 'b list" where
  "map_throwing f [] = Inr []"
| "map_throwing f (x # xs) =
     (case f x of
        Inl e \<Rightarrow> Inl e
      | Inr y \<Rightarrow> (case map_throwing f xs of Inl e \<Rightarrow> Inl e | Inr ys \<Rightarrow> Inr (y # ys)))"

fun elements :: "jsval \<Rightarrow> jsval list" where
  "elements (JArr xs) = xs"
| "elements v = []"

definition fetch_request :: "ApiConfig \<Rightarrow> request" where
  "fetch_request config =
     \<lparr>url = fullUrl config, http_method = ''GET'',
      headers = [(''Content-Type'', ''application/json'')]\<rparr>"

text \<open>The request a run sends: the configuration is read anew at every run.\<close>

abbreviation sent_request :: "run_env \<Rightarrow> request" where
  "sent_request env \<equiv>
     fetch_request (getApiConfig (VITE_API_BASE_URL env) (VITE_API_EXECUTION_ITEMS_ENDPOINT env))"

text \<open>
  The \<^verbatim>\<open>try\<close> block of \<^verbatim>\<open>fetchItems\<close>: either the sequence it assigns to \<^verbatim>\<open>items\<close>, or
  the value thrown and the place it was thrown at. The block writes no state before that
  assignment.
\<close>

definition try_block :: "run_env \<Rightarrow> (throw_site \<times> thrown) + jsval list" where
  \<open>try_block env =
     (let config = getApiConfig (VITE_API_BASE_URL env) (VITE_API_EXECUTION_ITEMS_ENDPOINT env)
      in if fullUrl config = [] then
           Inl (ConfigurationCheck, ErrorObject
             ''API endpoint not configured. Please set VITE_API_BASE_URL and VITE_API_EXECUTION_ITEMS_ENDPOINT environment variables.'')
         else
           (case fetch env (fetch_request config) of
              Inl e \<Rightarrow> Inl (FetchCall, e)
            | Inr response \<Rightarrow>
                if \<not> ok response then
                  Inl (HttpStatusCheck, ErrorObject
                    (''Failed to fetch execution items: '' @ decimal (status response)
                       @ '' '' @ statusText response))
                else
                  (case json response of
                     Inl e \<Rightarrow> Inl (JsonParse, e)
                   | Inr data \<Rightarrow>
                       (case get_prop data ''items'' of
                          Inl e \<Rightarrow> Inl (ItemsRead, e)
                        | Inr data_items \<Rightarrow>
                            if \<not> truthy data_items \<or> \<not> isArray data_items then
                              Inl (ResponseValidation, ErrorObject
                                ''Invalid API response: missing or invalid "items" array'')
                            else
                              (case map_throwing normalize (elements data_items) of
                                 Inl e \<Rightarrow> Inl (Normalization, e)
                               | Inr normalized \<Rightarrow> Inr normalized)))))\<close>

text \<open>
  The \<^verbatim>\<open>catch\<close> block's message:
  \<^verbatim>\<open>err instanceof Error ? err.message : 'Unknown error occurred while fetching execution items'\<close>.
\<close>

fun errorMessage :: "run_env \<Rightarrow> thrown \<Rightarrow> string" where
  "errorMessage env (ErrorObject m) = m"
| "errorMessage env (TypeErrorRead v p) = type_error_text env v p"
| "errorMessage env NonError = ''Unknown error occurred while fetching execution items''"

text \<open>How the promise of an \<^verbatim>\<open>async\<close> function settles.\<close>

datatype completion = Resolved | Rejected thrown

text \<open>
  \<^verbatim>\<open>fetchItems\<close> in the two parts its run has: the writes before the first \<^verbatim>\<open>await\<close>, and
  the writes once the \<^verbatim>\<open>try\<close> block has ended (the assignment to \<^verbatim>\<open>items\<close> or the
  \<^verbatim>\<open>catch\<close> block, then \<^verbatim>\<open>finally\<close>). The console output is not modelled.
\<close>

definition fetchItems_begin :: "fetcher_state \<Rightarrow> fetcher_state" where
  "fetchItems_begin s = s\<lparr>loading := True, error := None\<rparr>"

definition fetchItems_settle :: "run_env \<Rightarrow> fetcher_state \<Rightarrow> completion \<times> fetcher_state" where
  "fetchItems_settle env s =
     (let s' = (case try_block env of
                  Inr normalized \<Rightarrow> s\<lparr>items := normalized\<rparr>
                | Inl (site, err) \<Rightarrow> s\<lparr>error := Some (errorMessage env err), items := []\<rparr>)
      in (Resolved, s'\<lparr>loading := False\<rparr>))"

definition fetchItems :: "run_env \<Rightarrow> fetcher_state \<Rightarrow> completion \<times> fetcher_state" where
  "fetchItems env s = fetchItems_settle env (fetchItems_begin s)"

text \<open>\<^verbatim>\<open>refetch\<close> awaits \<^verbatim>\<open>fetchItems\<close> and settles as it does.\<close>

definition refetch :: "run_env \<Rightarrow> fetcher_state \<Rightarrow> completion \<times> fetcher_state" where
  "refetch env s = fetchItems env s"

text \<open>
  Runs that follow one another (the automatic one on mount, then each \<^verbatim>\<open>refetch\<close>), each
  with what the outside gives it.
\<close>

fun loads :: "fetcher_state \<Rightarrow> run_env list \<Rightarrow> fetcher_state" where
  "loads s [] = s"
| "loads s (env # envs) = loads (snd (fetchItems env s)) envs"

text \<open>
  Runs that overlap. Between the writes before the first \<^verbatim>\<open>await\<close> and the writes after
  the \<^verbatim>\<open>try\<close> block a run is suspended (at \<^verbatim>\<open>await fetch\<close> and at
  \<^verbatim>\<open>await response.json()\<close>) and writes nothing; nothing guards a second run against
  starting meanwhile. So the state changes in steps of two kinds, the beginning of some run
  and the settling of some run, and \<open>fetchItems\<close> above is the run that no step of another
  run falls into.
\<close>

datatype run_step = RunBegins | RunSettles run_env

fun step :: "fetcher_state \<Rightarrow> run_step \<Rightarrow> fetcher_state" where
  "step s RunBegins = fetchItems_begin s"
| "step s (RunSettles env) = snd (fetchItems_settle env s)"

definition run_steps :: "fetcher_state \<Rightarrow> run_step list \<Rightarrow> fetcher_state" where
  "run_steps s steps = foldl step s steps"

text \<open>A step that is not the settling of a failed run.\<close>

fun no_failure :: "run_step \<Rightarrow> bool" where
  "no_failure RunBegins = True"
| "no_failure (RunSettles env) = (case try_block env of Inr normalized \<Rightarrow> True | Inl failure \<Rightarrow> False)"

subsection \<open>Sample inputs, as the test suite sets them up\<close>

definition mockExecutionItems :: "ExecutionItem list" where
  "mockExecutionItems =
     [\<lparr>moduleName = ''Authentication Module'', owner = ''John Doe'', pm = ''Jane Smith'',
       healthStatus = OnTrack, teamWorking = ''Squad 1'',
       okrHierarchy = ''O1 > KR1 > Initiative A''\<rparr>,
      \<lparr>moduleName = ''Payment Gateway'', owner = ''Alice Johnson'', pm = ''Bob Williams'',
       healthStatus = AtRisk, teamWorking = ''Squad 2'',
       okrHierarchy = ''O2 > KR2 > Initiative B''\<rparr>,
      \<lparr>moduleName = ''User Dashboard'', owner = ''Charlie Brown'', pm = ''Diana Prince'',
       healthStatus = OffTrack, teamWorking = ''Squad 3'',
       okrHierarchy = ''O3 > KR3 > Initiative C''\<rparr>]"

definition mockSuccessResponse :: jsval where
  "mockSuccessResponse =
     JObj [(''items'', JArr (map js_of_item mockExecutionItems)), (''total'', JNum 3)]"

text \<open>The message text of one engine (V8) for a property read on a nullish value.\<close>

fun v8_type_error_text :: "jsval \<Rightarrow> string \<Rightarrow> string" where
  "v8_type_error_text v p =
     ''Cannot read properties of '' @ (if v = JNull then ''null'' else ''undefined'')
       @ '' (reading '' @ [CHR 0x27] @ p @ [CHR 0x27] @ '')''"

definition test_env :: "(thrown + response) \<Rightarrow> run_env" where
  "test_env outcome =
     \<lparr>VITE_API_BASE_URL = Some ''http://localhost:3000'',
      VITE_API_EXECUTION_ITEMS_ENDPOINT = Some ''/api/execution-items'',
      fetch = (\<lambda>req. outcome),
      type_error_text = v8_type_error_text\<rparr>"

definition json_response :: "jsval \<Rightarrow> thrown + response" where
  "json_response body = Inr \<lparr>status = 200, statusText = ''OK'', json = Inr body\<rparr>"

definition not_found_response :: "thrown + response" where
  "not_found_response =
     Inr \<lparr>status = 404, statusText = ''Not Found'',
          json = Inl (ErrorObject ''Unexpected end of JSON input'')\<rparr>"

definition network_error :: "thrown + response" where
  "network_error = Inl (ErrorObject ''Failed to fetch'')"

text \<open>A run with neither environment variable set, against a server that is not there.\<close>

definition unconfigured_env :: run_env where
  "unconfigured_env =
     \<lparr>VITE_API_BASE_URL = None, VITE_API_EXECUTION_ITEMS_ENDPOINT = None,
      fetch = (\<lambda>req. network_error), type_error_text = v8_type_error_text\<rparr>"

definition loaded_state :: fetcher_state where
  "loaded_state =
     \<lparr>items = map js_of_item mockExecutionItems, loading = False, error = None\<rparr>"

section \<open>Properties of the health status utilities\<close>

text \<open>
  C7: for each of the three \<^verbatim>\<open>HealthStatus\<close> values \<^verbatim>\<open>getStatusConfig\<close> returns the record
  of the static table (label, color, backgroundColor, severity as listed); the three
  records are distinct, none is absent and no string field of any is empty; the table has
  exactly three entries.
\<close>

theorem getStatusConfig_table:
  "getStatusConfig OnTrack =
     Some \<lparr>label = ''On Track'', color = ''#0ed183'', backgroundColor = ''#eefbf2'',
           severity = Success\<rparr>
   \<and> getStatusConfig AtRisk =
     Some \<lparr>label = ''At Risk'', color = ''#ff514e'', backgroundColor = ''#ffefed'',
           severity = Error\<rparr>
   \<and> getStatusConfig OffTrack =
     Some \<lparr>label = ''Off Track'', color = ''#ffab26'', backgroundColor = ''#fff7ed'',
           severity = Warning\<rparr>
   \<and> inj getStatusConfig
   \<and> (\<forall>s. \<exists>c. getStatusConfig s = Some c
          \<and> label c \<noteq> [] \<and> color c \<noteq> [] \<and> backgroundColor c \<noteq> [])
   \<and> length HEALTH_STATUS_CONFIG = 3"
proof -
  have a: "getStatusConfig OnTrack =
     Some \<lparr>label = ''On Track'', color = ''#0ed183'', backgroundColor = ''#eefbf2'',
           severity = Success\<rparr>"
    by (simp add: getStatusConfig_def HEALTH_STATUS_CONFIG_def)
  have b: "getStatusConfig AtRisk =
     Some \<lparr>label = ''At Risk'', color = ''#ff514e'', backgroundColor = ''#ffefed'',
           severity = Error\<rparr>"
    by (simp add: getStatusConfig_def HEALTH_STATUS_CONFIG_def)
  have c: "getStatusConfig OffTrack =
     Some \<lparr>label = ''Off Track'', color = ''#ffab26'', backgroundColor = ''#fff7ed'',
           severity = Warning\<rparr>"
    by (simp add: getStatusConfig_def HEALTH_STATUS_CONFIG_def)
  have d: "inj getStatusConfig"
  proof (rule injI)
    fix x y assume "getStatusConfig x = getStatusConfig y"
    then show "x = y" using a b c by (cases x; cases y) simp_all
  qed
  have e: "\<exists>c. getStatusConfig s = Some c
          \<and> label c \<noteq> [] \<and> color c \<noteq> [] \<and> backgroundColor c \<noteq> []" for s
    using a b c by (cases s) simp_all
  have f: "length HEALTH_STATUS_CONFIG = 3"
    by (simp add: HEALTH_STATUS_CONFIG_def)
  from a b c d e f show ?thesis by blast
qed

text \<open>
  C8: the badge functions have their own table: \<^verbatim>\<open>getStatusLabel\<close> gives
  \<^verbatim>\<open>On track\<close>, \<^verbatim>\<open>At Risks\<close>, \<^verbatim>\<open>Off Track\<close> for the three statuses and
  \<^verbatim>\<open>Unknown\<close> for \<^verbatim>\<open>undefined\<close> and \<^verbatim>\<open>null\<close>; \<^verbatim>\<open>getStatusColor\<close> gives the three
  colour pairs and the grey fallback; \<^verbatim>\<open>getStatusClassName\<close> gives
  \<^verbatim>\<open>health-status-unknown\<close> for \<^verbatim>\<open>undefined\<close> and \<^verbatim>\<open>null\<close>. The labels differ from
  those of \<^verbatim>\<open>HEALTH_STATUS_CONFIG\<close> for \<^verbatim>\<open>on-track\<close> and \<^verbatim>\<open>at-risk\<close>.
\<close>

theorem badge_formatting_table:
  "getStatusLabel (of_status OnTrack) = ''On track''
   \<and> getStatusLabel (of_status AtRisk) = ''At Risks''
   \<and> getStatusLabel (of_status OffTrack) = ''Off Track''
   \<and> getStatusLabel Undefined = ''Unknown''
   \<and> getStatusLabel Null = ''Unknown''
   \<and> getStatusColor (of_status OnTrack) = \<lparr>text_color = ''#0ed183'', background = ''#eefbf2''\<rparr>
   \<and> getStatusColor (of_status AtRisk) = \<lparr>text_color = ''#ff514e'', background = ''#ffefed''\<rparr>
   \<and> getStatusColor (of_status OffTrack) = \<lparr>text_color = ''#ffab26'', background = ''#fff7ed''\<rparr>
   \<and> getStatusColor Undefined = \<lparr>text_color = ''#656b75'', background = ''#f3f3f3''\<rparr>
   \<and> getStatusColor Null = \<lparr>text_color = ''#656b75'', background = ''#f3f3f3''\<rparr>
   \<and> getStatusClassName Undefined = ''health-status-unknown''
   \<and> getStatusClassName Null = ''health-status-unknown''
   \<and> getStatusLabel (of_status OnTrack) \<noteq> label (the (getStatusConfig OnTrack))
   \<and> getStatusLabel (of_status AtRisk) \<noteq> label (the (getStatusConfig AtRisk))"
  by (simp add: of_status_def getStatusConfig_def HEALTH_STATUS_CONFIG_def)

text \<open>
  C9: \<^verbatim>\<open>isValidStatus\<close> is true exactly for the three literal strings, which are the
  run-time values of \<^verbatim>\<open>HealthStatus\<close>; it is false for \<^verbatim>\<open>At Risk\<close>, \<^verbatim>\<open>ON-TRACK\<close> and
  the empty string.
\<close>

theorem isValidStatus_exact:
  "(\<forall>v. isValidStatus v = (v = ''on-track'' \<or> v = ''at-risk'' \<or> v = ''off-track''))
   \<and> (\<forall>v. isValidStatus v = (\<exists>s. v = literal s))
   \<and> \<not> isValidStatus ''At Risk''
   \<and> \<not> isValidStatus ''ON-TRACK''
   \<and> \<not> isValidStatus []"
proof -
  have a: "isValidStatus v = (v = ''on-track'' \<or> v = ''at-risk'' \<or> v = ''off-track'')" for v
    unfolding isValidStatus_def by simp
  have b: "(\<exists>s. v = literal s) = (v = ''on-track'' \<or> v = ''at-risk'' \<or> v = ''off-track'')"
    for v
  proof
    assume "\<exists>s. v = literal s"
    then obtain s where "v = literal s" ..
    then show "v = ''on-track'' \<or> v = ''at-risk'' \<or> v = ''off-track''"
      by (cases s) simp_all
  next
    assume "v = ''on-track'' \<or> v = ''at-risk'' \<or> v = ''off-track''"
    then show "\<exists>s. v = literal s"
      using literal.simps by metis
  qed
  show ?thesis using a b by simp
qed

text \<open>
  C10: for every work item \<^verbatim>\<open>classifyStatus\<close> returns the item's own
  \<^verbatim>\<open>healthStatus\<close>, whichever of the three values it is, and does not throw.
\<close>

theorem classifyStatus_identity:
  "classifyStatus (js_of_item item) = Inr (JStr (literal (healthStatus item)))
   \<and> (\<forall>h. classifyStatus (js_of_item (item\<lparr>healthStatus := h\<rparr>)) = Inr (JStr (literal h)))
   \<and> (\<forall>kvs v. map_of kvs ''healthStatus'' = Some v \<longrightarrow> classifyStatus (JObj kvs) = Inr v)"
  by (simp add: classifyStatus_def js_of_item_def)

theorem classifyStatus_identity_witness:
  "classifyStatus (js_of_item (hd mockExecutionItems)) = Inr (JStr ''on-track'')
   \<and> classifyStatus (JObj [(''healthStatus'', JStr ''at-risk''), (''owner'', JStr ''A'')])
       = Inr (JStr ''at-risk'')"
  using classifyStatus_identity [of "hd mockExecutionItems"]
  by (simp add: mockExecutionItems_def)

section \<open>Properties of the item fetcher\<close>

subsection \<open>Auxiliary facts\<close>

lemma fullUrl_nonempty: "fullUrl (getApiConfig b e) \<noteq> []"
proof -
  have "or_default e ''/api/execution-items'' \<noteq> []"
    by (cases e) simp_all
  then show ?thesis by (simp add: getApiConfig_def Let_def)
qed

lemma map_throwing_Inr_iff:
  "map_throwing f xs = Inr ys \<longleftrightarrow>
     length ys = length xs \<and> (\<forall>i<length xs. f (xs ! i) = Inr (ys ! i))"
proof (induction xs arbitrary: ys)
  case Nil
  then show ?case by auto
next
  case (Cons x xs)
  show ?case
  proof (cases ys)
    case Nil
    then show ?thesis by (simp split: sum.splits)
  next
    case (Cons y ys')
    have "(\<forall>i<Suc (length xs). f ((x # xs) ! i) = Inr ((y # ys') ! i)) \<longleftrightarrow>
          f x = Inr y \<and> (\<forall>i<length xs. f (xs ! i) = Inr (ys' ! i))"
      by (auto simp: less_Suc_eq_0_disj)
    then show ?thesis
      using Cons.IH [of ys'] Cons by (auto split: sum.splits)
  qed
qed

lemma try_block_Inr_iff:
  "try_block env = Inr ys \<longleftrightarrow>
     (\<exists>r data xs. fetch env (sent_request env) = Inr r \<and> ok r \<and> json r = Inr data
        \<and> get_prop data ''items'' = Inr (JArr xs) \<and> map_throwing normalize xs = Inr ys)"
proof
  assume "try_block env = Inr ys"
  then show "\<exists>r data xs. fetch env (sent_request env) = Inr r \<and> ok r \<and> json r = Inr data
        \<and> get_prop data ''items'' = Inr (JArr xs) \<and> map_throwing normalize xs = Inr ys"
    unfolding try_block_def Let_def
    by (auto split: if_splits sum.splits elim!: isArray.elims)
next
  assume "\<exists>r data xs. fetch env (sent_request env) = Inr r \<and> ok r \<and> json r = Inr data
        \<and> get_prop data ''items'' = Inr (JArr xs) \<and> map_throwing normalize xs = Inr ys"
  then show "try_block env = Inr ys"
    unfolding try_block_def Let_def
    by (auto simp: fullUrl_nonempty)
qed

lemma fetchItems_success:
  "try_block env = Inr ys \<Longrightarrow>
   fetchItems env s = (Resolved, \<lparr>items = ys, loading = False, error = None\<rparr>)"
  by (simp add: fetchItems_def fetchItems_settle_def fetchItems_begin_def)

lemma fetchItems_failure:
  "try_block env = Inl (site, err) \<Longrightarrow>
   fetchItems env s =
     (Resolved, \<lparr>items = [], loading = False, error = Some (errorMessage env err)\<rparr>)"
  by (simp add: fetchItems_def fetchItems_settle_def fetchItems_begin_def)

lemma normalize_object:
  "normalize (JObj kvs) =
     Inr (JObj (AList.update ''healthStatus''
            (case map_of kvs ''healthStatus'' of Some v \<Rightarrow> v | None \<Rightarrow> JUndefined) kvs))"
  by (simp add: normalize_def classifyStatus_def)

lemma normalize_item: "normalize (js_of_item item) = Inr (js_of_item item)"
  by (simp add: normalize_def classifyStatus_def js_of_item_def)

lemma try_block_fetch_rejects:
  "fetch env (sent_request env) = Inl e \<Longrightarrow> try_block env = Inl (FetchCall, e)"
  by (simp add: try_block_def Let_def fullUrl_nonempty)

lemma try_block_http_status:
  "fetch env (sent_request env) = Inr r \<Longrightarrow> \<not> ok r \<Longrightarrow>
   try_block env =
     Inl (HttpStatusCheck,
          ErrorObject (''Failed to fetch execution items: '' @ decimal (status r)
                         @ '' '' @ statusText r))"
  by (simp add: try_block_def Let_def fullUrl_nonempty)

lemma try_block_json_rejects:
  "fetch env (sent_request env) = Inr r \<Longrightarrow> ok r \<Longrightarrow> json r = Inl e \<Longrightarrow>
   try_block env = Inl (JsonParse, e)"
  by (simp add: try_block_def Let_def fullUrl_nonempty)

lemma try_block_items_read_throws:
  "fetch env (sent_request env) = Inr r \<Longrightarrow> ok r \<Longrightarrow> json r = Inr data \<Longrightarrow>
   get_prop data ''items'' = Inl e \<Longrightarrow> try_block env = Inl (ItemsRead, e)"
  by (simp add: try_block_def Let_def fullUrl_nonempty)

lemma try_block_items_invalid:
  \<open>fetch env (sent_request env) = Inr r \<Longrightarrow> ok r \<Longrightarrow> json r = Inr data \<Longrightarrow>
   get_prop data ''items'' = Inr v \<Longrightarrow> \<not> truthy v \<or> \<not> isArray v \<Longrightarrow>
   try_block env =
     Inl (ResponseValidation,
          ErrorObject ''Invalid API response: missing or invalid "items" array'')\<close>
  by (simp add: try_block_def Let_def fullUrl_nonempty)

lemma loads_snoc:
  "loads s (envs @ [env]) = snd (fetchItems env (loads s envs))"
  by (induction envs arbitrary: s) simp_all

lemma loads_last:
  "envs \<noteq> [] \<Longrightarrow> loads s envs = snd (fetchItems (last envs) (loads s (butlast envs)))"
  using loads_snoc [of s "butlast envs" "last envs"] by simp

lemma decimal_nonempty: "decimal n \<noteq> []"
  by (subst decimal.simps) simp

text \<open>\<open>decimal\<close> writes the number it is given: reading the digits back gives it again.\<close>

lemma decimal_value:
  "foldl (\<lambda>a c. 10 * a + (of_char c - 48)) 0 (decimal n) = n"
proof (induction n rule: decimal.induct)
  case (1 n)
  show ?case
  proof (cases "n < 10")
    case True
    then show ?thesis
      by (subst decimal.simps) (simp add: digit_def)
  next
    case False
    with 1 show ?thesis
      by (subst decimal.simps) (simp add: digit_def)
  qed
qed

lemma decimal_404: "decimal 404 = ''404''"
  by code_simp

lemma fetch_test_env: "fetch (test_env outcome) req = outcome"
  by (simp add: test_env_def)

text \<open>A response whose second element is \<^verbatim>\<open>null\<close>: the callback throws at that element.\<close>

lemma try_block_throwing_element:
  "try_block (test_env (json_response (JObj [(''items'', JArr [JObj [], JNull])]))) =
     Inl (Normalization, TypeErrorRead JNull ''healthStatus'')"
  by (simp add: try_block_def Let_def fullUrl_nonempty fetch_test_env json_response_def ok_def
        normalize_def classifyStatus_def)

lemma map_throwing_items: "map_throwing normalize (map js_of_item its) = Inr (map js_of_item its)"
  by (induction its) (simp_all add: normalize_item)

lemma try_block_mock_success:
  "try_block (test_env (json_response mockSuccessResponse)) =
     Inr (map js_of_item mockExecutionItems)"
proof -
  have "\<exists>r data xs.
      fetch (test_env (json_response mockSuccessResponse))
        (sent_request (test_env (json_response mockSuccessResponse))) = Inr r
      \<and> ok r \<and> json r = Inr data \<and> get_prop data ''items'' = Inr (JArr xs)
      \<and> map_throwing normalize xs = Inr (map js_of_item mockExecutionItems)"
    by (simp add: fetch_test_env json_response_def ok_def mockSuccessResponse_def
          map_throwing_items)
  then show ?thesis by (simp only: try_block_Inr_iff)
qed

lemma try_block_network_error:
  "try_block (test_env network_error) = Inl (FetchCall, ErrorObject ''Failed to fetch'')"
  by (rule try_block_fetch_rejects) (simp add: fetch_test_env network_error_def)

lemma items_after_run:
  "items (snd (fetchItems env s)) = (case try_block env of Inl failure \<Rightarrow> [] | Inr ys \<Rightarrow> ys)"
  by (cases "try_block env")
     (auto simp: fetchItems_success fetchItems_failure)

lemma try_block_null_body:
  "fetch env (sent_request env) = Inr r \<Longrightarrow> ok r \<Longrightarrow> json r = Inr JNull \<Longrightarrow>
   try_block env = Inl (ItemsRead, TypeErrorRead JNull ''items'')"
  using try_block_items_read_throws [of env r JNull] by simp

subsection \<open>Configuration\<close>

text \<open>
  C4: whatever the two environment variables are, the full URL of \<^verbatim>\<open>getApiConfig\<close> is not
  empty, since the endpoint is \<^verbatim>\<open>/api/execution-items\<close> when its variable is unset or
  empty; so no run leaves the \<^verbatim>\<open>try\<close> block at the configuration check.
\<close>

theorem configuration_error_unreachable:
  "fullUrl (getApiConfig b e) \<noteq> []
   \<and> endpoint (getApiConfig b None) = ''/api/execution-items''
   \<and> endpoint (getApiConfig b (Some [])) = ''/api/execution-items''
   \<and> (\<forall>env err. try_block env \<noteq> Inl (ConfigurationCheck, err))"
proof -
  have "try_block env \<noteq> Inl (ConfigurationCheck, err)" for env err
    unfolding try_block_def Let_def
    by (simp add: fullUrl_nonempty split: sum.splits)
  then show ?thesis
    by (simp add: fullUrl_nonempty) (simp add: getApiConfig_def Let_def)
qed

theorem configuration_error_unreachable_witness:
  "fullUrl (getApiConfig None None) = ''/api/execution-items''
   \<and> fullUrl (getApiConfig None None) \<noteq> []
   \<and> try_block unconfigured_env = Inl (FetchCall, ErrorObject ''Failed to fetch'')
   \<and> try_block unconfigured_env \<noteq>
       Inl (ConfigurationCheck, ErrorObject
         ''API endpoint not configured. Please set VITE_API_BASE_URL and VITE_API_EXECUTION_ITEMS_ENDPOINT environment variables.'')"
proof -
  have "try_block unconfigured_env = Inl (FetchCall, ErrorObject ''Failed to fetch'')"
    by (rule try_block_fetch_rejects) (simp add: unconfigured_env_def network_error_def)
  then show ?thesis
    using configuration_error_unreachable [of None None]
    by (simp add: getApiConfig_def Let_def)
qed

subsection \<open>Failures\<close>

text \<open>
  C6: when the response's status is outside 200 to 299, the run ends with \<^verbatim>\<open>items\<close>
  empty, \<^verbatim>\<open>loading\<close> false and \<^verbatim>\<open>error\<close> a message that contains the decimal status
  code and the status text.
\<close>

theorem http_error_status_message:
  assumes "fetch env (sent_request env) = Inr r"
    and "status r < 200 \<or> 299 < status r"
  shows "\<exists>msg. fetchItems env s =
             (Resolved, \<lparr>items = [], loading = False, error = Some msg\<rparr>)
           \<and> msg = ''Failed to fetch execution items: '' @ decimal (status r)
                     @ '' '' @ statusText r
           \<and> sublist (decimal (status r)) msg \<and> sublist (statusText r) msg"
proof -
  let ?msg = "''Failed to fetch execution items: '' @ decimal (status r)
                @ '' '' @ statusText r"
  from assms(2) have "\<not> ok r" by (auto simp: ok_def)
  with assms(1) have "try_block env = Inl (HttpStatusCheck, ErrorObject ?msg)"
    by (rule try_block_http_status)
  then have "fetchItems env s =
      (Resolved, \<lparr>items = [], loading = False, error = Some ?msg\<rparr>)"
    using fetchItems_failure by fastforce
  moreover have "sublist (decimal (status r)) ?msg"
    unfolding sublist_def by blast
  moreover have "sublist (statusText r) ?msg"
    by (metis sublist_appendI append.assoc append_Nil2)
  ultimately show ?thesis by blast
qed

theorem http_error_status_message_witness:
  "fetchItems (test_env not_found_response) loaded_state =
     (Resolved, \<lparr>items = [], loading = False,
                 error = Some ''Failed to fetch execution items: 404 Not Found''\<rparr>)
   \<and> sublist ''404'' ''Failed to fetch execution items: 404 Not Found''
   \<and> sublist ''Not Found'' ''Failed to fetch execution items: 404 Not Found''"
  using http_error_status_message
    [of "test_env not_found_response"
        "\<lparr>status = 404, statusText = ''Not Found'',
          json = Inl (ErrorObject ''Unexpected end of JSON input'')\<rparr>" loaded_state]
  by (simp add: fetch_test_env not_found_response_def decimal_404)



text \<open>
  A body other than \<^verbatim>\<open>null\<close> whose \<^verbatim>\<open>items\<close> is absent or not an array ends the run
  with the validation message, as for the body \<^verbatim>\<open>{ "total": 10 }\<close>.
\<close>

lemma validation_message_unless_null:
  assumes "fetch env (sent_request env) = Inr r" and "ok r" and "json r = Inr data"
    and "data \<noteq> JNull" and "data \<noteq> JUndefined"
    and "\<forall>xs. get_prop data ''items'' \<noteq> Inr (JArr xs)"
  shows \<open>fetchItems env s =
           (Resolved, \<lparr>items = [], loading = False,
              error = Some ''Invalid API response: missing or invalid "items" array''\<rparr>)\<close>
proof -
  from assms(4,5) obtain v where v: "get_prop data ''items'' = Inr v"
    by (cases data) simp_all
  with assms(6) have "\<not> isArray v" by (cases v) simp_all
  then have "\<not> truthy v \<or> \<not> isArray v" ..
  from try_block_items_invalid [OF assms(1-3) v this] show ?thesis
    using fetchItems_failure by fastforce
qed

lemma missing_items_example:
  \<open>fetchItems (test_env (json_response (JObj [(''total'', JNum 10)]))) loaded_state =
     (Resolved, \<lparr>items = [], loading = False,
        error = Some ''Invalid API response: missing or invalid "items" array''\<rparr>)\<close>
  by (rule validation_message_unless_null
        [where data = "JObj [(''total'', JNum 10)]"
           and r = "\<lparr>status = 200, statusText = ''OK'',
                    json = Inr (JObj [(''total'', JNum 10)])\<rparr>"])
     (simp_all add: fetch_test_env json_response_def ok_def)

text \<open>
  C5: a body that parses as JSON and whose \<^verbatim>\<open>items\<close> field is absent or not a sequence
  should end the run with the validation message that names the \<^verbatim>\<open>items\<close> field. For
  the body \<^verbatim>\<open>null\<close> the read \<^verbatim>\<open>data.items\<close> throws before the validation is reached:
  \<^verbatim>\<open>items\<close> is empty, but \<^verbatim>\<open>error\<close> is the engine's \<^verbatim>\<open>TypeError\<close> text and not the
  validation message.
\<close>

theorem null_body_bypasses_validation:
  \<open>try_block (test_env (json_response JNull)) = Inl (ItemsRead, TypeErrorRead JNull ''items'')
   \<and> fetchItems (test_env (json_response JNull)) initial_state =
       (Resolved, \<lparr>items = [], loading = False,
          error = Some (''Cannot read properties of null (reading ''
                          @ [CHR 0x27] @ ''items'' @ [CHR 0x27] @ '')'')\<rparr>)
   \<and> error (snd (fetchItems (test_env (json_response JNull)) initial_state)) \<noteq>
       Some ''Invalid API response: missing or invalid "items" array''\<close>
proof -
  have t: "try_block (test_env (json_response JNull)) =
      Inl (ItemsRead, TypeErrorRead JNull ''items'')"
    by (rule try_block_null_body [where r = "\<lparr>status = 200, statusText = ''OK'', json = Inr JNull\<rparr>"])
       (simp_all add: fetch_test_env json_response_def ok_def)
  from fetchItems_failure [OF t, of initial_state] t show ?thesis
    by (simp add: test_env_def)
qed

theorem null_body_bypasses_validation_witness:
  "fst (fetchItems (test_env (json_response JNull)) initial_state) = Resolved
   \<and> items (snd (fetchItems (test_env (json_response JNull)) initial_state)) = []
   \<and> loading (snd (fetchItems (test_env (json_response JNull)) initial_state)) = False
   \<and> error (snd (fetchItems (test_env (json_response JNull)) initial_state)) =
       Some (v8_type_error_text JNull ''items'')"
  using null_body_bypasses_validation by simp

subsection \<open>Successful runs\<close>

lemma settle_success:
  "try_block env = Inr ys \<Longrightarrow>
   fetchItems_settle env s = (Resolved, s\<lparr>items := ys, loading := False\<rparr>)"
  by (simp add: fetchItems_settle_def)

lemma settle_failure:
  "try_block env = Inl (site, err) \<Longrightarrow>
   fetchItems_settle env s =
     (Resolved, s\<lparr>error := Some (errorMessage env err), items := [], loading := False\<rparr>)"
  by (simp add: fetchItems_settle_def)

lemma step_keeps_error_clear:
  "no_failure a \<Longrightarrow> error s = None \<Longrightarrow> error (step s a) = None"
  by (cases a) (auto simp: fetchItems_begin_def settle_success split: sum.splits)

lemma run_steps_keep_error_clear:
  "\<forall>a\<in>set steps. no_failure a \<Longrightarrow> error s = None \<Longrightarrow> error (run_steps s steps) = None"
proof (induction steps arbitrary: s)
  case Nil
  then show ?case by (simp add: run_steps_def)
next
  case (Cons a steps)
  from Cons.prems have "error (step s a) = None"
    by (simp add: step_keeps_error_clear)
  with Cons show ?case by (simp add: run_steps_def)
qed

text \<open>
  C2, with the condition under which \<^verbatim>\<open>error\<close> is null: when the response has a 2xx status and its parsed body has an
  \<^verbatim>\<open>items\<close> array of \<open>N\<close> objects, the run resolves with \<^verbatim>\<open>loading\<close> false and
  \<^verbatim>\<open>items\<close> of length \<open>N\<close>, whose \<open>i\<close>-th element is the \<open>i\<close>-th response element with
  \<^verbatim>\<open>healthStatus\<close> set to \<^verbatim>\<open>classifyStatus\<close> of that element and every other property
  unchanged (for typed work items, the response sequence itself). The settling of the run
  does not write \<^verbatim>\<open>error\<close>: it is null when no failed run settled between the beginning
  of this run and its settling, in particular when no other run overlaps it.
\<close>

theorem load_success_unless_overlapping_failure:
  assumes "fetch env (sent_request env) = Inr r"
    and "200 \<le> status r \<and> status r \<le> 299"
    and "json r = Inr data"
    and "get_prop data ''items'' = Inr (JArr xs)"
    and "\<forall>x\<in>set xs. \<exists>kvs. x = JObj kvs"
    and "\<forall>a\<in>set between. no_failure a"
  shows "\<exists>ys. length ys = length xs
           \<and> (\<forall>i<length xs. \<exists>kvs kvs' hs.
                  xs ! i = JObj kvs \<and> classifyStatus (xs ! i) = Inr hs
                  \<and> ys ! i = JObj kvs'
                  \<and> map_of kvs' = (map_of kvs)(''healthStatus'' \<mapsto> hs))
           \<and> (\<forall>its. xs = map js_of_item its \<longrightarrow> ys = xs)
           \<and> (\<forall>s'. fetchItems_settle env s' = (Resolved, s'\<lparr>items := ys, loading := False\<rparr>))
           \<and> run_steps s (earlier @ [RunBegins] @ between @ [RunSettles env]) =
               \<lparr>items = ys, loading = False, error = None\<rparr>
           \<and> fetchItems env s = (Resolved, \<lparr>items = ys, loading = False, error = None\<rparr>)"
proof -
  have norm: "\<exists>y. normalize x = Inr y" if "x \<in> set xs" for x
  proof -
    from assms(5) that obtain kvs where "x = JObj kvs" by blast
    then show ?thesis by (simp add: normalize_object)
  qed
  define ys where "ys = map (\<lambda>x. case normalize x of Inr y \<Rightarrow> y | Inl e \<Rightarrow> JUndefined) xs"
  have each: "normalize (xs ! i) = Inr (ys ! i)" if "i < length xs" for i
    using norm [of "xs ! i"] that by (auto simp: ys_def)
  then have mt: "map_throwing normalize xs = Inr ys"
    by (simp add: map_throwing_Inr_iff ys_def)
  from assms(2) have "ok r" by (simp add: ok_def)
  with assms(1,3,4) mt have tb: "try_block env = Inr ys"
    by (auto simp: try_block_Inr_iff)
  have len: "length ys = length xs" by (simp add: ys_def)
  have elems: "\<exists>kvs kvs' hs. xs ! i = JObj kvs \<and> classifyStatus (xs ! i) = Inr hs
      \<and> ys ! i = JObj kvs' \<and> map_of kvs' = (map_of kvs)(''healthStatus'' \<mapsto> hs)"
    if "i < length xs" for i
  proof -
    from that assms(5) obtain kvs where k: "xs ! i = JObj kvs" by (meson nth_mem)
    let ?hs = "case map_of kvs ''healthStatus'' of Some v \<Rightarrow> v | None \<Rightarrow> JUndefined"
    have "classifyStatus (xs ! i) = Inr ?hs" by (simp add: k classifyStatus_def)
    moreover have "ys ! i = JObj (AList.update ''healthStatus'' ?hs kvs)"
      using each [OF that] by (simp add: k normalize_object)
    moreover have "map_of (AList.update ''healthStatus'' ?hs kvs) =
        (map_of kvs)(''healthStatus'' \<mapsto> ?hs)"
      by (rule update_conv')
    ultimately show ?thesis using k by blast
  qed
  have typed: "ys = xs" if "xs = map js_of_item its" for its
    using mt by (simp add: that map_throwing_items)
  have settle: "fetchItems_settle env s' = (Resolved, s'\<lparr>items := ys, loading := False\<rparr>)"
    for s'
    using tb by (rule settle_success)
  have steps: "run_steps s (earlier @ [RunBegins] @ between @ [RunSettles env]) =
      \<lparr>items = ys, loading = False, error = None\<rparr>"
  proof -
    let ?begun = "fetchItems_begin (run_steps s earlier)"
    let ?before = "run_steps ?begun between"
    have "error ?begun = None" by (simp add: fetchItems_begin_def)
    with assms(6) have clear: "error ?before = None"
      by (rule run_steps_keep_error_clear)
    have "run_steps s (earlier @ [RunBegins] @ between @ [RunSettles env]) =
        snd (fetchItems_settle env ?before)"
      by (simp add: run_steps_def)
    also have "\<dots> = ?before\<lparr>items := ys, loading := False\<rparr>"
      by (simp add: settle)
    also have "\<dots> = \<lparr>items = ys, loading = False, error = None\<rparr>"
      using clear by (cases ?before) simp
    finally show ?thesis .
  qed
  have run: "fetchItems env s = (Resolved, \<lparr>items = ys, loading = False, error = None\<rparr>)"
    using tb by (rule fetchItems_success)
  from len elems typed settle steps run show ?thesis by blast
qed

theorem load_success_unless_overlapping_failure_witness:
  "no_failure RunBegins
   \<and> no_failure (RunSettles (test_env (json_response (JObj [(''items'', JArr [])]))))
   \<and> run_steps loaded_state
        ([RunSettles (test_env network_error)] @ [RunBegins]
          @ [RunBegins, RunSettles (test_env (json_response (JObj [(''items'', JArr [])])))]
          @ [RunSettles (test_env (json_response mockSuccessResponse))]) =
       \<lparr>items = map js_of_item mockExecutionItems, loading = False, error = None\<rparr>
   \<and> fetchItems (test_env (json_response mockSuccessResponse)) loaded_state =
       (Resolved,
        \<lparr>items = map js_of_item mockExecutionItems, loading = False, error = None\<rparr>)
   \<and> length (map js_of_item mockExecutionItems) = 3"
proof -
  let ?env = "test_env (json_response mockSuccessResponse)"
  let ?empty = "test_env (json_response (JObj [(''items'', JArr [])]))"
  let ?r = "\<lparr>status = 200, statusText = ''OK'', json = Inr mockSuccessResponse\<rparr>"
  have e: "try_block ?empty = Inr []"
    by (simp add: try_block_def Let_def fullUrl_nonempty fetch_test_env json_response_def ok_def)
  have 1: "fetch ?env (sent_request ?env) = Inr ?r"
    by (simp add: fetch_test_env json_response_def)
  have 2: "200 \<le> status ?r \<and> status ?r \<le> 299" by simp
  have 3: "json ?r = Inr mockSuccessResponse" by simp
  have 4: "get_prop mockSuccessResponse ''items'' = Inr (JArr (map js_of_item mockExecutionItems))"
    by (simp add: mockSuccessResponse_def)
  have 5: "\<forall>x\<in>set (map js_of_item mockExecutionItems). \<exists>kvs. x = JObj kvs"
    by (simp add: js_of_item_def)
  have 6: "\<forall>a\<in>set [RunBegins, RunSettles ?empty]. no_failure a"
    by (simp add: e)
  from load_success_unless_overlapping_failure
         [OF 1 2 3 4 5 6, of loaded_state "[RunSettles (test_env network_error)]"]
  obtain ys where "ys = map js_of_item mockExecutionItems"
      and "run_steps loaded_state
             ([RunSettles (test_env network_error)] @ [RunBegins]
               @ [RunBegins, RunSettles ?empty] @ [RunSettles ?env]) =
           \<lparr>items = ys, loading = False, error = None\<rparr>"
      and "fetchItems ?env loaded_state =
           (Resolved, \<lparr>items = ys, loading = False, error = None\<rparr>)"
    by blast
  then show ?thesis by (simp add: e mockExecutionItems_def)
qed

text \<open>
  C2 as stated, with \<^verbatim>\<open>error\<close> null after every run on a well-formed response, fails
  when a second run begins while the first is in flight and fails before the first
  settles: the first run ends with the three items and with the second run's message.
\<close>

theorem load_success_error_counterexample:
  "try_block (test_env (json_response mockSuccessResponse)) =
     Inr (map js_of_item mockExecutionItems)
   \<and> run_steps initial_state
        [RunBegins, RunBegins, RunSettles (test_env network_error),
         RunSettles (test_env (json_response mockSuccessResponse))] =
       \<lparr>items = map js_of_item mockExecutionItems, loading = False,
        error = Some ''Failed to fetch''\<rparr>
   \<and> error (run_steps initial_state
        [RunBegins, RunBegins, RunSettles (test_env network_error),
         RunSettles (test_env (json_response mockSuccessResponse))]) \<noteq> None"
proof -
  have a: "try_block (test_env (json_response mockSuccessResponse)) =
      Inr (map js_of_item mockExecutionItems)"
    by (rule try_block_mock_success)
  have b: "try_block (test_env network_error) = Inl (FetchCall, ErrorObject ''Failed to fetch'')"
    by (rule try_block_network_error)
  have "run_steps initial_state
        [RunBegins, RunBegins, RunSettles (test_env network_error),
         RunSettles (test_env (json_response mockSuccessResponse))] =
       \<lparr>items = map js_of_item mockExecutionItems, loading = False,
        error = Some ''Failed to fetch''\<rparr>"
    by (simp add: run_steps_def fetchItems_begin_def initial_state_def
          settle_success [OF a] settle_failure [OF b])
  with a show ?thesis by simp
qed

text \<open>
  C1: \<^verbatim>\<open>items\<close> is empty at the start and is not touched when a run begins. After any
  non-empty sequence of runs, from any state, \<^verbatim>\<open>items\<close> is empty when the last run
  failed, and otherwise it is the whole normalized sequence of the last run: as long
  as the response's \<^verbatim>\<open>items\<close> array, each element the normalized response element.
  \<^verbatim>\<open>refetch\<close> is one such run.
\<close>

theorem items_complete_or_empty:
  "items initial_state = []
   \<and> items (fetchItems_begin s) = items s
   \<and> snd (refetch env s) = loads s [env]
   \<and> items (snd (fetchItems_settle env s)) =
       (case try_block env of Inl failure \<Rightarrow> [] | Inr normalized \<Rightarrow> normalized)
   \<and> (envs \<noteq> [] \<longrightarrow>
        (case try_block (last envs) of
           Inl failure \<Rightarrow> items (loads s envs) = []
         | Inr normalized \<Rightarrow>
             items (loads s envs) = normalized
             \<and> (\<exists>r data xs.
                   fetch (last envs) (sent_request (last envs)) = Inr r \<and> ok r
                   \<and> json r = Inr data \<and> get_prop data ''items'' = Inr (JArr xs)
                   \<and> length normalized = length xs
                   \<and> (\<forall>i<length xs. normalize (xs ! i) = Inr (normalized ! i)))))"
proof -
  have a: "items initial_state = []" by (simp add: initial_state_def)
  have b: "items (fetchItems_begin s) = items s" by (simp add: fetchItems_begin_def)
  have c: "snd (refetch env s) = loads s [env]" by (simp add: refetch_def)
  have d: "case try_block (last envs) of
           Inl failure \<Rightarrow> items (loads s envs) = []
         | Inr normalized \<Rightarrow>
             items (loads s envs) = normalized
             \<and> (\<exists>r data xs.
                   fetch (last envs) (sent_request (last envs)) = Inr r \<and> ok r
                   \<and> json r = Inr data \<and> get_prop data ''items'' = Inr (JArr xs)
                   \<and> length normalized = length xs
                   \<and> (\<forall>i<length xs. normalize (xs ! i) = Inr (normalized ! i)))"
    if ne: "envs \<noteq> []"
  proof (cases "try_block (last envs)")
    case (Inl failure)
    then show ?thesis
      by (simp add: loads_last [OF ne] items_after_run)
  next
    case (Inr normalized)
    then obtain r data xs where
      "fetch (last envs) (sent_request (last envs)) = Inr r" "ok r" "json r = Inr data"
      "get_prop data ''items'' = Inr (JArr xs)" "map_throwing normalize xs = Inr normalized"
      unfolding try_block_Inr_iff by blast
    moreover from this(5) have "length normalized = length xs"
      and "\<forall>i<length xs. normalize (xs ! i) = Inr (normalized ! i)"
      by (simp_all add: map_throwing_Inr_iff)
    ultimately show ?thesis
      using Inr by (simp add: loads_last [OF ne] items_after_run)
  qed
  have e: "items (snd (fetchItems_settle env s)) =
       (case try_block env of Inl failure \<Rightarrow> [] | Inr normalized \<Rightarrow> normalized)"
    by (simp add: fetchItems_settle_def split: sum.splits)
  from a b c d e show ?thesis by blast
qed

theorem items_complete_or_empty_witness:
  "items (loads initial_state
       [test_env network_error, test_env (json_response mockSuccessResponse)]) =
     map js_of_item mockExecutionItems
   \<and> items (loads initial_state
       [test_env (json_response mockSuccessResponse), test_env network_error]) = []
   \<and> items (loads loaded_state
       [test_env (json_response (JObj [(''items'', JArr [JObj [], JNull])]))]) = []"
  using items_complete_or_empty
      [of initial_state "test_env network_error"
          "[test_env network_error, test_env (json_response mockSuccessResponse)]"]
    items_complete_or_empty
      [of initial_state "test_env network_error"
          "[test_env (json_response mockSuccessResponse), test_env network_error]"]
    items_complete_or_empty
      [of loaded_state "test_env network_error"
          "[test_env (json_response (JObj [(''items'', JArr [JObj [], JNull])]))]"]
  by (simp add: try_block_mock_success try_block_network_error try_block_throwing_element)

end
